theory Spec2Isabelle
  imports Complex_Main "HOL-Library.Multiset"
begin

section \<open>Host-language values: strings and Numbers\<close>

text \<open>
  Strings are \<^typ>\<open>string\<close>: the UTF-8 bytes of the text.

  A Number is a double. The model holds the values it can follow exactly: \<open>Num i\<close>, an
  integer of magnitude at most \<open>2^53\<close> (every such integer is a double, sums of such
  integers are exact, and the text printed for one is its decimal digits), and \<open>NaN\<close>, which
  \<open>parseInt\<close> returns on text without a leading digit. Every double beyond \<open>2^53\<close> is
  \<open>Imprecise\<close>: sums are rounded there and texts are the shortest digits that identify the
  double, which the model does not compute. The program adds and counts but never divides,
  so no fraction arises.
\<close>

datatype number = Num int | NaN | Imprecise

definition safeInteger :: "int \<Rightarrow> bool" where
  "safeInteger i = (\<bar>i\<bar> \<le> 2 ^ 53)"

definition numberOf :: "int \<Rightarrow> number" where
  "numberOf i = (if safeInteger i then Num i else Imprecise)"

fun plus_number :: "number \<Rightarrow> int \<Rightarrow> number" where
  "plus_number (Num a) b = numberOf (a + b)"
| "plus_number NaN b = NaN"
| "plus_number Imprecise b = Imprecise"

text \<open>
  The characters \<open>String.prototype.trim\<close> and \<open>parseInt\<close> skip, each as its UTF-8 bytes:
  tab, line feed, vertical tab, form feed, carriage return, space, U+00A0, U+1680,
  U+2000 to U+200A, U+2028, U+2029, U+202F, U+205F, U+3000 and U+FEFF.
\<close>

definition whiteSpaceChars :: "string list" where
  "whiteSpaceChars =
     map (\<lambda>c. [c]) [CHR 0x09, CHR 0x0A, CHR 0x0B, CHR 0x0C, CHR 0x0D, CHR 0x20] @
     [[CHR 0xC2, CHR 0xA0], [CHR 0xE1, CHR 0x9A, CHR 0x80]] @
     map (\<lambda>c. [CHR 0xE2, CHR 0x80, c])
       [CHR 0x80, CHR 0x81, CHR 0x82, CHR 0x83, CHR 0x84, CHR 0x85, CHR 0x86, CHR 0x87,
        CHR 0x88, CHR 0x89, CHR 0x8A, CHR 0xA8, CHR 0xA9, CHR 0xAF] @
     [[CHR 0xE2, CHR 0x81, CHR 0x9F], [CHR 0xE3, CHR 0x80, CHR 0x80],
      [CHR 0xEF, CHR 0xBB, CHR 0xBF]]"

text \<open>The number of bytes of the first of the given characters the text starts with, or 0.\<close>

definition leadingLength :: "string list \<Rightarrow> string \<Rightarrow> nat" where
  "leadingLength ws s =
     (case find (\<lambda>w. take (length w) s = w) ws of None \<Rightarrow> 0 | Some w \<Rightarrow> length w)"

fun stripLeading :: "string list \<Rightarrow> string \<Rightarrow> string" where
  "stripLeading ws [] = []"
| "stripLeading ws (c # cs) =
     (case leadingLength ws (c # cs) of
        0 \<Rightarrow> c # cs
      | Suc n \<Rightarrow> stripLeading ws (drop n cs))"

definition trimStart :: "string \<Rightarrow> string" where
  "trimStart s = stripLeading whiteSpaceChars s"

definition trimEnd :: "string \<Rightarrow> string" where
  "trimEnd s = rev (stripLeading (map rev whiteSpaceChars) (rev s))"

definition trim :: "string \<Rightarrow> string" where
  "trim s = trimEnd (trimStart s)"

definition digitChar :: "nat \<Rightarrow> char" where
  "digitChar d = ''0123456789'' ! d"



fun decimal :: "nat \<Rightarrow> string" where
  "decimal n = (if n < 10 then [digitChar n] else decimal (n div 10) @ [digitChar (n mod 10)])"

declare decimal.simps [simp del]

text \<open>
  \<open>Number.prototype.toString()\<close>: the decimal digits of a safe integer, with its sign.
  The text of an imprecise Number is left unspecified.
\<close>

fun toString :: "number \<Rightarrow> string" where
  "toString NaN = ''NaN''"
| "toString Imprecise = undefined"
| "toString (Num i) =
     (if safeInteger i
      then (if i < 0 then ''-'' @ decimal (nat (- i)) else decimal (nat i))
      else undefined)"



section \<open>Data model\<close>

record Character =
  fact :: string
  characterName :: string
  imagePrompt :: string
  imageUrl :: "string option"

text \<open>A card of the character gallery: the three contents \<open>generateImage\<close> gives it.\<close>

datatype card = CardLoading string | CardImage string string | CardFailed string

text \<open>The story area holds either the placeholder paragraph or plain text.\<close>

datatype story_content = StoryPlaceholder | StoryText string

text \<open>An answer button: its label, its state, and the correct fact its click handler captured.\<close>

record answer_button =
  b_text :: string
  b_disabled :: bool
  b_classes :: "string list"
  b_correct :: string

text \<open>Callbacks handed to \<open>setTimeout\<close>.\<close>

datatype callback = RemoveAwarded | NextQuestion

text \<open>
  Calls into the host, in the order the program makes them. The narrative request is
  recorded with the facts it embeds (the fixed wording around them is left out), the
  illustration request with its whole prompt.
\<close>

datatype effect =
    Alert string
  | SetTimeout callback nat
  | GenerateContent string
  | GenerateImages string
  | ConsoleError string
  | UncaughtTypeError

definition COINS_PER_STORY :: int where
  "COINS_PER_STORY = 10"

definition COINS_PER_CORRECT_ANSWER :: int where
  "COINS_PER_CORRECT_ANSWER = 5"

text \<open>
  The whole program state: the module's variables, the one storage key, the page elements
  the program writes, the host calls made so far and the number of \<open>Math.random()\<close>
  calls made so far. An array slot is \<open>None\<close> where the array has a hole.
\<close>

record app =
  isLoading :: bool
  coins :: number
  currentDeck :: "Character option list"
  currentQuestionIndex :: nat
  score :: nat
  coinsEarnedThisSession :: int
  memoryPalaceCoins :: "string option"
  mainContainer_hidden :: bool
  factsInput_value :: string
  generateButton_disabled :: bool
  buttonText :: string
  spinner_hidden :: bool
  storyOutput :: story_content
  galleryTitle_hidden :: bool
  characterGallery :: "card list"
  coinDisplay_awarded :: bool
  coinCount :: string
  startReviewButton_hidden :: bool
  quizContainer_hidden :: bool
  quizProgress :: string
  quizCharacterImage_src :: string
  quizCharacterImage_alt :: string
  quizQuestionText :: string
  quizAnswers :: "answer_button list"
  quizSummary_hidden :: bool
  summaryScore :: string
  summaryCoins :: string
  effects :: "effect list"
  randomCalls :: nat

section \<open>Reward ledger\<close>

definition updateCoinDisplay :: "app \<Rightarrow> app" where
  "updateCoinDisplay s = s\<lparr>coinCount := toString (coins s)\<rparr>"


definition saveGameData :: "app \<Rightarrow> app" where
  "saveGameData s = s\<lparr>memoryPalaceCoins := Some (toString (coins s))\<rparr>"

definition awardCoins :: "int \<Rightarrow> app \<Rightarrow> app" where
  "awardCoins amount s =
     (let s1 = s\<lparr>coins := plus_number (coins s) amount,
                  coinsEarnedThisSession := coinsEarnedThisSession s + amount\<rparr>;
          s2 = updateCoinDisplay (saveGameData s1)
      in s2\<lparr>coinDisplay_awarded := True,
             effects := effects s2 @ [SetTimeout RemoveAwarded 600]\<rparr>)"

text \<open>The callback of the timer \<open>awardCoins\<close> sets.\<close>

definition removeAwarded :: "app \<Rightarrow> app" where
  "removeAwarded s = s\<lparr>coinDisplay_awarded := False\<rparr>"

definition setLoading :: "bool \<Rightarrow> string \<Rightarrow> app \<Rightarrow> app" where
  "setLoading loading message s =
     s\<lparr>isLoading := loading, generateButton_disabled := loading,
       spinner_hidden := \<not> loading, buttonText := message\<rparr>"

definition resetOutput :: "app \<Rightarrow> app" where
  "resetOutput s =
     s\<lparr>storyOutput := StoryPlaceholder, characterGallery := [], galleryTitle_hidden := True,
       startReviewButton_hidden := True, factsInput_value := []\<rparr>"

section \<open>Story generation\<close>

text \<open>
  The two awaited calls are the program's only suspension points; what they deliver is an
  input of the model.
  \<^item> \<open>NarrativeFailed\<close>: the text request was rejected, or its answer did not parse, or
    is no object, or its \<open>characters\<close> is no array: what throws inside the \<open>try\<close> before
    the first descriptor is visited.
  \<^item> \<open>NarrativeOk story characters\<close>: the parsed answer, \<open>characters\<close> being \<open>None\<close>
    when the key is missing.
  \<^item> \<open>NarrativeBadEntry story cs\<close>: the parsed answer has a \<open>characters\<close> array that
    holds the descriptors \<open>cs\<close> and then an entry that is \<open>null\<close>. Reading the name of
    that entry throws inside the \<open>map\<close> callback, after the calls for \<open>cs\<close> were made.
  \<^item> \<open>ImageFailed\<close>: the image request was rejected or its answer holds no image.
\<close>

datatype narrative_result =
    NarrativeFailed
  | NarrativeOk string "Character list option"
  | NarrativeBadEntry string "Character list"

datatype image_result = ImageOk string | ImageFailed

text \<open>
  A suspended \<open>generateImage\<close> call: its \<open>index\<close>, the card it created (by position in
  the gallery) and its \<open>characterData\<close>.
\<close>

record pending_image =
  p_index :: nat
  p_card :: nat
  p_character :: Character

text \<open>\<open>array[index] = value\<close>: a write past the end extends the array, leaving holes.\<close>

definition arraySet :: "'a option list \<Rightarrow> nat \<Rightarrow> 'a \<Rightarrow> 'a option list" where
  "arraySet xs i v =
     (if i < length xs then xs[i := Some v]
      else xs @ replicate (i - length xs) None @ [Some v])"

text \<open>\<open>generateImage\<close> up to its \<open>await\<close>: the card, the deck entry, the request.\<close>

definition generateImage_request :: "Character \<Rightarrow> nat \<Rightarrow> app \<Rightarrow> app \<times> pending_image" where
  "generateImage_request characterData index s =
     (s\<lparr>characterGallery := characterGallery s @ [CardLoading (fact characterData)],
        currentDeck := arraySet (currentDeck s) index characterData,
        effects := effects s @
          [GenerateImages (imagePrompt characterData @
             '', simple cartoon style, vibrant colors, no text'')]\<rparr>,
      \<lparr>p_index = index, p_card = length (characterGallery s), p_character = characterData\<rparr>)"

text \<open>The \<open>catch\<close> branch of \<open>generateImage\<close>.\<close>

definition generateImage_catch :: "pending_image \<Rightarrow> app \<Rightarrow> app" where
  "generateImage_catch p s =
     s\<lparr>effects := effects s @
          [ConsoleError (''Failed to generate image for '' @ [CHR 0x22] @
             fact (p_character p) @ [CHR 0x22])],
       characterGallery := (characterGallery s)[p_card p := CardFailed (fact (p_character p))]\<rparr>"

text \<open>
  \<open>generateImage\<close> after its \<open>await\<close>. Writing \<open>imageUrl\<close> into a deck slot that holds
  no object throws, which the \<open>catch\<close> branch handles like a failed request.
\<close>

definition generateImage_settled :: "pending_image \<Rightarrow> image_result \<Rightarrow> app \<Rightarrow> app" where
  "generateImage_settled p r s =
     (case r of
        ImageFailed \<Rightarrow> generateImage_catch p s
      | ImageOk base64ImageBytes \<Rightarrow>
          (let url = ''data:image/jpeg;base64,'' @ base64ImageBytes in
           case (if p_index p < length (currentDeck s) then currentDeck s ! p_index p else None) of
             None \<Rightarrow> generateImage_catch p s
           | Some c \<Rightarrow>
               s\<lparr>currentDeck := (currentDeck s)[p_index p := Some (c\<lparr>imageUrl := Some url\<rparr>)],
                 characterGallery :=
                   (characterGallery s)[p_card p := CardImage url (fact (p_character p))]\<rparr>))"

text \<open>\<open>data.characters.map(...)\<close>: every call runs to its \<open>await\<close>, in array order.\<close>

fun launchAll ::
  "Character list \<Rightarrow> nat \<Rightarrow> app \<Rightarrow> pending_image list \<Rightarrow> app \<times> pending_image list" where
  "launchAll [] index s ps = (s, ps)"
| "launchAll (char # rest) index s ps =
     (let s1 = setLoading True (''Creating '' @ characterName char @ ''...'') s;
          (s2, p) = generateImage_request char index s1
      in launchAll rest (Suc index) s2 (ps @ [p]))"

text \<open>
  The requests settle in the order the list gives, each with its result; a settlement for
  an index that is not pending is ignored (a promise settles once).
\<close>

fun settleAll ::
  "(nat \<times> image_result) list \<Rightarrow> pending_image list \<Rightarrow> app \<Rightarrow> app \<times> pending_image list" where
  "settleAll [] ps s = (s, ps)"
| "settleAll ((i, r) # rest) ps s =
     (case find (\<lambda>p. p_index p = i) ps of
        None \<Rightarrow> settleAll rest ps s
      | Some p \<Rightarrow> settleAll rest (filter (\<lambda>q. p_index q \<noteq> i) ps) (generateImage_settled p r s))"

text \<open>The \<open>catch\<close> and \<open>finally\<close> blocks of \<open>generateStoryAndImages\<close>.\<close>

definition generateStory_catch :: "app \<Rightarrow> app" where
  "generateStory_catch s =
     (resetOutput (s\<lparr>effects := effects s @ [ConsoleError ''error'']\<rparr>))
       \<lparr>storyOutput := StoryText
          ''An error occurred while creating your palace. Please check the console for details.''\<rparr>"

definition generateStory_finally :: "app \<Rightarrow> app" where
  "generateStory_finally s = setLoading False ''Weave a Story'' s"

text \<open>
  The whole handler, given what the narrative request delivers and the order and results
  in which the illustration requests settle. The result is \<open>None\<close> when some illustration
  request never settles: \<open>Promise.all\<close> then never resolves and the handler never resumes.
  The run is one function: while the handler is suspended the generate button is disabled
  and the review button hidden, so no other handler that reads or writes the deck or the
  ledger can run in between. After a bad entry the \<open>catch\<close> and \<open>finally\<close> blocks run
  at once and the handler is done; the requests already made settle afterwards, on cards
  that are no longer in the gallery.
\<close>

definition generateStoryAndImages ::
  "narrative_result \<Rightarrow> (nat \<times> image_result) list \<Rightarrow> app \<Rightarrow> app option" where
  "generateStoryAndImages response settlements s =
     (if isLoading s then Some s
      else let facts = trim (factsInput_value s) in
        if facts = [] then
          Some (s\<lparr>effects := effects s @ [Alert ''Please enter some facts in The Study first!'']\<rparr>)
        else
          let s0 = setLoading True ''Weaving Story...'' s;
              s1 = s0\<lparr>storyOutput := StoryText [], characterGallery := [],
                      galleryTitle_hidden := True, startReviewButton_hidden := True,
                      currentDeck := [], effects := effects s0 @ [GenerateContent facts]\<rparr>
          in case response of
               NarrativeFailed \<Rightarrow> Some (generateStory_finally (generateStory_catch s1))
             | NarrativeOk story characters \<Rightarrow>
                 (let s2 = s1\<lparr>storyOutput := StoryText story\<rparr> in
                  case characters of
                    None \<Rightarrow> Some (generateStory_finally (awardCoins COINS_PER_STORY s2))
                  | Some cs \<Rightarrow>
                      if length cs > 0 then
                        (let (s3, ps) = launchAll cs 0 (s2\<lparr>galleryTitle_hidden := False\<rparr>) [];
                             (s4, ps') = settleAll settlements ps s3
                         in if ps' = [] then
                              Some (generateStory_finally
                                (awardCoins COINS_PER_STORY (s4\<lparr>startReviewButton_hidden := False\<rparr>)))
                            else None)
                      else Some (generateStory_finally (awardCoins COINS_PER_STORY s2)))
             | NarrativeBadEntry story cs \<Rightarrow>
                 (let s2 = s1\<lparr>storyOutput := StoryText story, galleryTitle_hidden := False\<rparr>;
                      (s3, ps) = launchAll cs 0 s2 [];
                      s4 = generateStory_finally (generateStory_catch s3)
                  in Some (fst (settleAll settlements ps s4))))"

section \<open>Quiz\<close>

text \<open>
  The \<open>k\<close>-th call of \<open>Math.random()\<close> returns \<open>rnd k\<close>, a value in \<open>[0, 1)\<close>. The loop
  \<open>for (i = length - 1; i > 0; i--)\<close> draws \<open>j = floor(random * (i + 1))\<close> and swaps the
  elements at \<open>i\<close> and \<open>j\<close>; it returns the array and the number of calls made.
\<close>

fun shuffleLoop :: "(nat \<Rightarrow> real) \<Rightarrow> nat \<Rightarrow> nat \<Rightarrow> 'a list \<Rightarrow> 'a list \<times> nat" where
  "shuffleLoop rnd k 0 xs = (xs, k)"
| "shuffleLoop rnd k (Suc i) xs =
     (let j = nat \<lfloor>rnd k * real (Suc i + 1)\<rfloor>
      in shuffleLoop rnd (Suc k) i (xs[Suc i := xs ! j, j := xs ! Suc i]))"

definition shuffle :: "(nat \<Rightarrow> real) \<Rightarrow> nat \<Rightarrow> 'a list \<Rightarrow> 'a list \<times> nat" where
  "shuffle rnd k xs = shuffleLoop rnd k (length xs - 1) xs"

text \<open>\<open>map\<close> and \<open>filter\<close> visit the slots that hold an element and skip the holes.\<close>

definition generateMultipleChoice ::
  "(nat \<Rightarrow> real) \<Rightarrow> string \<Rightarrow> app \<Rightarrow> string list \<times> app" where
  "generateMultipleChoice rnd correctAnswer s =
     (let allFacts = map fact (List.map_filter (\<lambda>c. c) (currentDeck s));
          distractors = filter (\<lambda>f. f \<noteq> correctAnswer) allFacts;
          (distractors', k1) = shuffle rnd (randomCalls s) distractors;
          options = correctAnswer # take 2 distractors';
          (options', k2) = shuffle rnd k1 options
      in (options', s\<lparr>randomCalls := k2\<rparr>))"

text \<open>
  \<open>displayQuestion\<close> writes the progress line, then reads the current character; when the
  deck has no object at the current index that read throws and the handler stops there.
\<close>

definition displayQuestion :: "(nat \<Rightarrow> real) \<Rightarrow> app \<Rightarrow> app" where
  "displayQuestion rnd s =
     (let s1 = s\<lparr>quizProgress :=
                  ''Question '' @ toString (Num (int (currentQuestionIndex s) + 1)) @ '' of '' @
                  toString (Num (int (length (currentDeck s))))\<rparr>
      in case (if currentQuestionIndex s < length (currentDeck s)
               then currentDeck s ! currentQuestionIndex s else None) of
           None \<Rightarrow> s1\<lparr>effects := effects s1 @ [UncaughtTypeError]\<rparr>
         | Some character \<Rightarrow>
             (let s2 = s1\<lparr>quizCharacterImage_src :=
                            (case imageUrl character of Some u \<Rightarrow> u | None \<Rightarrow> []),
                          quizCharacterImage_alt := ''Image of '' @ characterName character,
                          quizQuestionText :=
                            ''This character, '' @ characterName character @ '', reminds you of...''\<rparr>;
                  (options, s3) = generateMultipleChoice rnd (fact character) s2
              in s3\<lparr>quizAnswers :=
                      map (\<lambda>option. \<lparr>b_text = option, b_disabled = False,
                                      b_classes = [''answer-button''],
                                      b_correct = fact character\<rparr>) options\<rparr>))"

definition startQuiz :: "(nat \<Rightarrow> real) \<Rightarrow> app \<Rightarrow> app" where
  "startQuiz rnd s =
     (if length (currentDeck s) < 2 then
        s\<lparr>effects := effects s @ [Alert ''You need at least 2 characters to start a review.'']\<rparr>
      else displayQuestion rnd
             (s\<lparr>mainContainer_hidden := True, quizContainer_hidden := False,
                currentQuestionIndex := 0, score := 0, coinsEarnedThisSession := 0\<rparr>))"

definition classListAdd :: "string \<Rightarrow> string list \<Rightarrow> string list" where
  "classListAdd c cs = (if c \<in> set cs then cs else cs @ [c])"

definition markButton :: "string \<Rightarrow> string \<Rightarrow> answer_button \<Rightarrow> answer_button" where
  "markButton selectedAnswer correctAnswer b =
     (if ''answer-button'' \<in> set (b_classes b) then
        (let b1 = b\<lparr>b_disabled := True\<rparr> in
         if b_text b = correctAnswer then b1\<lparr>b_classes := classListAdd ''correct'' (b_classes b)\<rparr>
         else if b_text b = selectedAnswer then
           b1\<lparr>b_classes := classListAdd ''incorrect'' (b_classes b)\<rparr>
         else b1)
      else b)"

definition handleAnswer :: "string \<Rightarrow> string \<Rightarrow> app \<Rightarrow> app" where
  "handleAnswer selectedAnswer correctAnswer s =
     (let s1 = s\<lparr>quizAnswers := map (markButton selectedAnswer correctAnswer) (quizAnswers s)\<rparr>;
          s2 = (if selectedAnswer = correctAnswer
                then awardCoins COINS_PER_CORRECT_ANSWER (s1\<lparr>score := Suc (score s1)\<rparr>)
                else s1)
      in s2\<lparr>effects := effects s2 @ [SetTimeout NextQuestion 1500]\<rparr>)"

text \<open>The sign of the summary line: the bytes the source holds between the two spaces.\<close>

definition coinSign :: string where
  "coinSign =
     [CHR 0xEF, CHR 0xA3, CHR 0xBF, CHR 0xC3, CHR 0xBC, CHR 0xC3, CHR 0xAD, CHR 0xE2, CHR 0x88,
      CHR 0x9E]"

definition showSummary :: "app \<Rightarrow> app" where
  "showSummary s =
     s\<lparr>quizContainer_hidden := True, quizSummary_hidden := False,
       summaryScore := ''You scored '' @ toString (Num (int (score s))) @ '' out of '' @
                       toString (Num (int (length (currentDeck s)))) @ ''!'',
       summaryCoins := ''You earned '' @ toString (Num (coinsEarnedThisSession s)) @ '' '' @
                       coinSign @ '' for this review.''\<rparr>"

text \<open>The callback of the timer \<open>handleAnswer\<close> sets.\<close>

definition nextQuestion :: "(nat \<Rightarrow> real) \<Rightarrow> app \<Rightarrow> app" where
  "nextQuestion rnd s =
     (let s1 = s\<lparr>currentQuestionIndex := Suc (currentQuestionIndex s)\<rparr>
      in if currentQuestionIndex s1 < length (currentDeck s1) then displayQuestion rnd s1
         else showSummary s1)"

definition resetApp :: "app \<Rightarrow> app" where
  "resetApp s = resetOutput (s\<lparr>quizSummary_hidden := True, mainContainer_hidden := False\<rparr>)"

text \<open>
  A click on the \<open>k\<close>-th answer button runs the handler the button was given; a disabled
  button receives no click.
\<close>

definition clickAnswer :: "nat \<Rightarrow> app \<Rightarrow> app" where
  "clickAnswer k s =
     (if k < length (quizAnswers s) \<and> \<not> b_disabled (quizAnswers s ! k)
      then handleAnswer (b_text (quizAnswers s ! k)) (b_correct (quizAnswers s ! k)) s
      else s)"

text \<open>What can happen during a quiz session, and a run of such events.\<close>

datatype quiz_event = ClickAnswer nat | AnswerTimeout | AwardedTimeout

fun quizStep :: "(nat \<Rightarrow> real) \<Rightarrow> quiz_event \<Rightarrow> app \<Rightarrow> app" where
  "quizStep rnd (ClickAnswer k) s = clickAnswer k s"
| "quizStep rnd AnswerTimeout s = nextQuestion rnd s"
| "quizStep rnd AwardedTimeout s = removeAwarded s"

definition quizRun :: "(nat \<Rightarrow> real) \<Rightarrow> quiz_event list \<Rightarrow> app \<Rightarrow> app" where
  "quizRun rnd es s = foldl (\<lambda>t e. quizStep rnd e t) s es"

section \<open>Start of the page\<close>



section \<open>Auxiliary notions for the statements\<close>

text \<open>The deck entry a settled illustration request leaves behind.\<close>

definition withImage :: "image_result \<Rightarrow> Character \<Rightarrow> Character" where
  "withImage r c =
     (case r of
        ImageOk base64ImageBytes \<Rightarrow> c\<lparr>imageUrl := Some (''data:image/jpeg;base64,'' @ base64ImageBytes)\<rparr>
      | ImageFailed \<Rightarrow> c)"

fun isSetTimeout :: "effect \<Rightarrow> bool" where
  "isSetTimeout (SetTimeout cb ms) = True"
| "isSetTimeout e = False"


fun isRequest :: "effect \<Rightarrow> bool" where
  "isRequest (GenerateContent p) = True"
| "isRequest (GenerateImages p) = True"
| "isRequest e = False"

text \<open>A page just loaded, with facts typed in, and a descriptor, for concrete runs.\<close>

definition sampleCharacter :: "string \<Rightarrow> Character" where
  "sampleCharacter f =
     \<lparr>fact = f, characterName = ''Sir '' @ f, imagePrompt = ''A knight holding '' @ f,
      imageUrl = None\<rparr>"

definition samplePage :: app where
  "samplePage =
     \<lparr>isLoading = False, coins = Num 0, currentDeck = [], currentQuestionIndex = 0, score = 0,
      coinsEarnedThisSession = 0, memoryPalaceCoins = None, mainContainer_hidden = False,
      factsInput_value = '' Fact A '', generateButton_disabled = False,
      buttonText = ''Weave a Story'', spinner_hidden = True, storyOutput = StoryPlaceholder,
      galleryTitle_hidden = True, characterGallery = [], coinDisplay_awarded = False,
      coinCount = ''0'', startReviewButton_hidden = True, quizContainer_hidden = True,
      quizProgress = [], quizCharacterImage_src = [], quizCharacterImage_alt = [],
      quizQuestionText = [], quizAnswers = [], quizSummary_hidden = True, summaryScore = [],
      summaryCoins = [], effects = [], randomCalls = 0\<rparr>"

text \<open>The same page with a deck of three descriptors, as a finished story leaves it.\<close>

definition sampleQuizPage :: app where
  "sampleQuizPage =
     samplePage\<lparr>currentDeck :=
       [Some (sampleCharacter ''A''), Some (sampleCharacter ''B''), Some (sampleCharacter ''C'')]\<rparr>"

text \<open>A narrative answer of three descriptors; the second illustration fails.\<close>

definition sampleDescriptors :: "Character list" where
  "sampleDescriptors = [sampleCharacter ''A'', sampleCharacter ''B'', sampleCharacter ''C'']"

definition sampleOutcome :: "nat \<Rightarrow> image_result" where
  "sampleOutcome i = (if i = 1 then ImageFailed else ImageOk ''QUJD'')"

section \<open>Decimal text of a balance\<close>








section \<open>Frame lemmas\<close>

lemma awardCoins_fields:
  "coins (awardCoins a s) = plus_number (coins s) a"
  "coinsEarnedThisSession (awardCoins a s) = coinsEarnedThisSession s + a"
  "memoryPalaceCoins (awardCoins a s) = Some (toString (plus_number (coins s) a))"
  "coinCount (awardCoins a s) = toString (plus_number (coins s) a)"
  "effects (awardCoins a s) = effects s @ [SetTimeout RemoveAwarded 600]"
  "score (awardCoins a s) = score s"
  "currentDeck (awardCoins a s) = currentDeck s"
  "quizAnswers (awardCoins a s) = quizAnswers s"
  "startReviewButton_hidden (awardCoins a s) = startReviewButton_hidden s"
  by (simp_all add: awardCoins_def saveGameData_def updateCoinDisplay_def Let_def
      del: toString.simps)

lemma generateMultipleChoice_fields:
  "score (snd (generateMultipleChoice rnd c s)) = score s"
  "coins (snd (generateMultipleChoice rnd c s)) = coins s"
  "coinsEarnedThisSession (snd (generateMultipleChoice rnd c s)) = coinsEarnedThisSession s"
  "memoryPalaceCoins (snd (generateMultipleChoice rnd c s)) = memoryPalaceCoins s"
  "effects (snd (generateMultipleChoice rnd c s)) = effects s"
  "currentDeck (snd (generateMultipleChoice rnd c s)) = currentDeck s"
  "currentQuestionIndex (snd (generateMultipleChoice rnd c s)) = currentQuestionIndex s"
  by (simp_all add: generateMultipleChoice_def Let_def case_prod_beta)

lemma displayQuestion_fields:
  "score (displayQuestion rnd s) = score s"
  "coins (displayQuestion rnd s) = coins s"
  "coinsEarnedThisSession (displayQuestion rnd s) = coinsEarnedThisSession s"
  "memoryPalaceCoins (displayQuestion rnd s) = memoryPalaceCoins s"
  "currentDeck (displayQuestion rnd s) = currentDeck s"
  "currentQuestionIndex (displayQuestion rnd s) = currentQuestionIndex s"
  by (simp_all add: displayQuestion_def Let_def case_prod_beta generateMultipleChoice_fields
      split: option.splits del: toString.simps)

lemma displayQuestion_current:
  assumes "currentQuestionIndex s < length (currentDeck s)"
    and "currentDeck s ! currentQuestionIndex s = Some c"
  shows "effects (displayQuestion rnd s) = effects s"
    and "\<exists>options. quizAnswers (displayQuestion rnd s) =
           map (\<lambda>option. \<lparr>b_text = option, b_disabled = False,
                           b_classes = [''answer-button''], b_correct = fact c\<rparr>) options"
  using assms
  by (simp_all add: displayQuestion_def Let_def case_prod_beta generateMultipleChoice_fields
      del: toString.simps) blast

lemma handleAnswer_fields:
  "score (handleAnswer sel cor s) = (if sel = cor then Suc (score s) else score s)"
  "coins (handleAnswer sel cor s) =
     (if sel = cor then plus_number (coins s) COINS_PER_CORRECT_ANSWER else coins s)"
  "coinsEarnedThisSession (handleAnswer sel cor s) =
     (if sel = cor then coinsEarnedThisSession s + COINS_PER_CORRECT_ANSWER
      else coinsEarnedThisSession s)"
  "memoryPalaceCoins (handleAnswer sel cor s) =
     (if sel = cor then Some (toString (plus_number (coins s) COINS_PER_CORRECT_ANSWER))
      else memoryPalaceCoins s)"
  "effects (handleAnswer sel cor s) =
     (if sel = cor then effects s @ [SetTimeout RemoveAwarded 600, SetTimeout NextQuestion 1500]
      else effects s @ [SetTimeout NextQuestion 1500])"
  "quizAnswers (handleAnswer sel cor s) = map (markButton sel cor) (quizAnswers s)"
  by (simp_all add: handleAnswer_def awardCoins_fields Let_def del: toString.simps)

section \<open>Settling the illustration requests\<close>

lemma withImage_failed: "map_option (withImage ImageFailed) x = x"
  by (cases x) (simp_all add: withImage_def)

lemma generateImage_settled_deck:
  "currentDeck (generateImage_settled p r s) =
     (currentDeck s)[p_index p := map_option (withImage r) (currentDeck s ! p_index p)]"
proof (cases r)
  case ImageFailed
  then show ?thesis
    by (simp add: generateImage_settled_def generateImage_catch_def withImage_failed)
next
  case (ImageOk b)
  show ?thesis
  proof (cases "p_index p < length (currentDeck s)")
    case False
    with ImageOk show ?thesis
      by (simp add: generateImage_settled_def generateImage_catch_def list_update_beyond)
  next
    case True
    show ?thesis
    proof (cases "currentDeck s ! p_index p")
      case None
      with ImageOk True list_update_id [of "currentDeck s" "p_index p"] show ?thesis
        by (simp add: generateImage_settled_def generateImage_catch_def)
    next
      case (Some c)
      with ImageOk True show ?thesis
        by (simp add: generateImage_settled_def withImage_def Let_def)
    qed
  qed
qed

lemma generateImage_settled_frame:
  "coins (generateImage_settled p r s) = coins s"
  "coinsEarnedThisSession (generateImage_settled p r s) = coinsEarnedThisSession s"
  "filter isSetTimeout (effects (generateImage_settled p r s)) = filter isSetTimeout (effects s)"
  by (simp_all add: generateImage_settled_def generateImage_catch_def Let_def
      split: image_result.splits option.splits)

lemma setLoading_frame:
  "coins (setLoading b m s) = coins s"
  "coinsEarnedThisSession (setLoading b m s) = coinsEarnedThisSession s"
  "effects (setLoading b m s) = effects s"
  "currentDeck (setLoading b m s) = currentDeck s"
  by (simp_all add: setLoading_def)

lemma generateImage_request_fields:
  "coins (fst (generateImage_request c i s)) = coins s"
  "coinsEarnedThisSession (fst (generateImage_request c i s)) = coinsEarnedThisSession s"
  "filter isSetTimeout (effects (fst (generateImage_request c i s))) =
     filter isSetTimeout (effects s)"
  "currentDeck (fst (generateImage_request c i s)) = arraySet (currentDeck s) i c"
  "p_index (snd (generateImage_request c i s)) = i"
  by (simp_all add: generateImage_request_def)

lemma launchAll_Cons:
  "launchAll (c # rest) index s ps =
     launchAll rest (Suc index)
       (fst (generateImage_request c index (setLoading True (''Creating '' @ characterName c @ ''...'') s)))
       (ps @ [snd (generateImage_request c index (setLoading True (''Creating '' @ characterName c @ ''...'') s))])"
  by (simp add: Let_def case_prod_beta)

lemma launchAll_frame:
  "coins (fst (launchAll cs index s ps)) = coins s
   \<and> coinsEarnedThisSession (fst (launchAll cs index s ps)) = coinsEarnedThisSession s
   \<and> filter isSetTimeout (effects (fst (launchAll cs index s ps))) = filter isSetTimeout (effects s)"
proof (induction cs arbitrary: index s ps)
  case Nil
  show ?case by simp
next
  case (Cons c rest)
  show ?case
    unfolding launchAll_Cons
    by (simp only: Cons.IH generateImage_request_fields setLoading_frame)
qed

lemma launchAll_deck:
  "length (currentDeck s) = index \<Longrightarrow>
     currentDeck (fst (launchAll cs index s ps)) = currentDeck s @ map Some cs"
proof (induction cs arbitrary: index s ps)
  case Nil
  show ?case by simp
next
  case (Cons c rest)
  let ?s = "fst (generateImage_request c index (setLoading True (''Creating '' @ characterName c @ ''...'') s))"
  have d: "currentDeck ?s = currentDeck s @ [Some c]"
    using Cons.prems
    by (simp only: generateImage_request_fields setLoading_frame) (simp add: arraySet_def)
  then have "length (currentDeck ?s) = Suc index" using Cons.prems by simp
  from Cons.IH [OF this] show ?case
    unfolding launchAll_Cons by (simp only: d) simp
qed

lemma launchAll_pending:
  "map p_index (snd (launchAll cs index s ps)) = map p_index ps @ [index..<index + length cs]"
proof (induction cs arbitrary: index s ps)
  case Nil
  show ?case by simp
next
  case (Cons c rest)
  show ?case
    unfolding launchAll_Cons
    by (simp only: Cons.IH) (simp add: generateImage_request_fields upt_rec)
qed

lemma settleAll_frame:
  "coins (fst (settleAll st ps s)) = coins s
   \<and> coinsEarnedThisSession (fst (settleAll st ps s)) = coinsEarnedThisSession s
   \<and> filter isSetTimeout (effects (fst (settleAll st ps s))) = filter isSetTimeout (effects s)"
  by (induction st ps s rule: settleAll.induct)
    (simp_all add: generateImage_settled_frame split: option.splits)

lemma settleAll_order:
  assumes "distinct order" and "set order \<subseteq> p_index ` set ps" and "distinct (map p_index ps)"
  shows "snd (settleAll (map (\<lambda>i. (i, outcome i)) order) ps s) =
           filter (\<lambda>p. p_index p \<notin> set order) ps
       \<and> length (currentDeck (fst (settleAll (map (\<lambda>i. (i, outcome i)) order) ps s))) =
           length (currentDeck s)
       \<and> (\<forall>j < length (currentDeck s).
            currentDeck (fst (settleAll (map (\<lambda>i. (i, outcome i)) order) ps s)) ! j =
              (if j \<in> set order then map_option (withImage (outcome j)) (currentDeck s ! j)
               else currentDeck s ! j))"
  using assms
proof (induction order arbitrary: ps s)
  case Nil
  then show ?case by simp
next
  case (Cons i rest)
  from Cons.prems obtain p where p: "find (\<lambda>p. p_index p = i) ps = Some p" "p_index p = i"
    by (cases "find (\<lambda>p. p_index p = i) ps") (auto simp: find_None_iff find_Some_iff)
  let ?ps = "filter (\<lambda>q. p_index q \<noteq> i) ps"
  let ?s = "generateImage_settled p (outcome i) s"
  have step: "settleAll (map (\<lambda>i. (i, outcome i)) (i # rest)) ps s =
      settleAll (map (\<lambda>i. (i, outcome i)) rest) ?ps ?s"
    using p by simp
  have sub: "set rest \<subseteq> p_index ` set ?ps"
  proof
    fix x assume x: "x \<in> set rest"
    with Cons.prems(2) obtain q where q: "q \<in> set ps" "p_index q = x" by auto
    from x Cons.prems(1) have "x \<noteq> i" by auto
    with q show "x \<in> p_index ` set ?ps" by force
  qed
  have pre: "distinct rest" "set rest \<subseteq> p_index ` set ?ps" "distinct (map p_index ?ps)"
    using Cons.prems sub by (simp_all add: distinct_map_filter)
  note ih = Cons.IH [OF pre, of ?s]
  have deck: "currentDeck ?s = (currentDeck s)[i := map_option (withImage (outcome i)) (currentDeck s ! i)]"
    using p(2) by (simp add: generateImage_settled_deck)
  have flt: "filter (\<lambda>p. p_index p \<notin> set rest) ?ps = filter (\<lambda>p. p_index p \<notin> set (i # rest)) ps"
    by (auto intro: filter_cong)
  from Cons.prems have inot: "i \<notin> set rest" by simp
  then have neq: "\<And>j. j \<in> set rest \<Longrightarrow> j \<noteq> i" by auto
  have len: "length (currentDeck ?s) = length (currentDeck s)"
    by (simp add: deck)
  let ?r = "settleAll (map (\<lambda>i. (i, outcome i)) rest) ?ps ?s"
  show ?case
    unfolding step
  proof (intro conjI allI impI)
    show "snd ?r = filter (\<lambda>p. p_index p \<notin> set (i # rest)) ps"
      using ih flt by simp
    show "length (currentDeck (fst ?r)) = length (currentDeck s)"
      using ih len by simp
    fix j assume j: "j < length (currentDeck s)"
    with ih len have a: "currentDeck (fst ?r) ! j =
        (if j \<in> set rest then map_option (withImage (outcome j)) (currentDeck ?s ! j)
         else currentDeck ?s ! j)"
      by simp
    have b: "currentDeck ?s ! j =
        (if j = i then map_option (withImage (outcome i)) (currentDeck s ! i)
         else currentDeck s ! j)"
      using j by (simp add: deck nth_list_update)
    show "currentDeck (fst ?r) ! j =
        (if j \<in> set (i # rest) then map_option (withImage (outcome j)) (currentDeck s ! j)
         else currentDeck s ! j)"
      unfolding a b using inot by auto
  qed
qed

lemma story_success:
  assumes "\<not> isLoading s" and "trim (factsInput_value s) \<noteq> []"
    and "mset order = mset [0..<length cs]"
  shows "\<exists>s'. generateStoryAndImages (NarrativeOk story (Some cs))
                 (map (\<lambda>i. (i, outcome i)) order) s = Some s'
           \<and> currentDeck s' = map (\<lambda>i. Some (withImage (outcome i) (cs ! i))) [0..<length cs]
           \<and> coins s' = plus_number (coins s) COINS_PER_STORY
           \<and> coinsEarnedThisSession s' = coinsEarnedThisSession s + COINS_PER_STORY
           \<and> memoryPalaceCoins s' = Some (toString (plus_number (coins s) COINS_PER_STORY))
           \<and> filter isSetTimeout (effects s') =
               filter isSetTimeout (effects s) @ [SetTimeout RemoveAwarded 600]
           \<and> \<not> isLoading s' \<and> \<not> generateButton_disabled s'
           \<and> (cs \<noteq> [] \<longrightarrow> \<not> startReviewButton_hidden s')"
proof (cases "cs = []")
  case True
  with assms(1,2) show ?thesis
    by (simp add: generateStoryAndImages_def generateStory_finally_def setLoading_def
        awardCoins_def saveGameData_def updateCoinDisplay_def Let_def del: toString.simps)
next
  case False
  define s2 where "s2 = (setLoading True ''Weaving Story...'' s)
      \<lparr>storyOutput := StoryText [], characterGallery := [],
       galleryTitle_hidden := True, startReviewButton_hidden := True,
       currentDeck := [],
       effects := effects (setLoading True ''Weaving Story...'' s) @
         [GenerateContent (trim (factsInput_value s))],
       storyOutput := StoryText story, galleryTitle_hidden := False\<rparr>"
  define L where "L = launchAll cs 0 s2 []"
  define R where "R = settleAll (map (\<lambda>i. (i, outcome i)) order) (snd L) (fst L)"
  have gen: "generateStoryAndImages (NarrativeOk story (Some cs))
               (map (\<lambda>i. (i, outcome i)) order) s =
      (if snd R = [] then
         Some (generateStory_finally
           (awardCoins COINS_PER_STORY ((fst R)\<lparr>startReviewButton_hidden := False\<rparr>)))
       else None)"
    unfolding R_def L_def s2_def using assms(1,2) False
    by (simp add: generateStoryAndImages_def Let_def case_prod_beta)
  have s2: "currentDeck s2 = []" "coins s2 = coins s"
    "coinsEarnedThisSession s2 = coinsEarnedThisSession s"
    "filter isSetTimeout (effects s2) = filter isSetTimeout (effects s)"
    by (simp_all add: s2_def setLoading_def)
  have Ldeck: "currentDeck (fst L) = map Some cs"
    unfolding L_def using launchAll_deck [of s2 0 cs "[]"] s2(1) by simp
  have Lpend: "map p_index (snd L) = [0..<length cs]"
    unfolding L_def using launchAll_pending [of cs 0 s2 "[]"] by simp
  from assms(3) have dist: "distinct order"
    using mset_eq_imp_distinct_iff [OF assms(3)] by simp
  from assms(3) have so: "set order = {0..<length cs}"
    using mset_eq_setD [OF assms(3)] by simp
  have sub: "set order \<subseteq> p_index ` set (snd L)"
  proof -
    have "p_index ` set (snd L) = set (map p_index (snd L))" by simp
    then show ?thesis unfolding Lpend using so by simp
  qed
  have dps: "distinct (map p_index (snd L))"
    unfolding Lpend by simp
  note run = settleAll_order [OF dist sub dps, of outcome "fst L", folded R_def]
  have all_in: "\<And>p. p \<in> set (snd L) \<Longrightarrow> p_index p \<in> set order"
  proof -
    fix p assume "p \<in> set (snd L)"
    then have "p_index p \<in> set (map p_index (snd L))" by simp
    then show "p_index p \<in> set order" unfolding Lpend so by simp
  qed
  have Rnil: "snd R = []"
    using run all_in by (simp add: filter_empty_conv)
  have Rdeck: "currentDeck (fst R) = map (\<lambda>i. Some (withImage (outcome i) (cs ! i))) [0..<length cs]"
  proof (rule nth_equalityI)
    show "length (currentDeck (fst R)) = length (map (\<lambda>i. Some (withImage (outcome i) (cs ! i))) [0..<length cs])"
      using run by (simp add: Ldeck)
  next
    fix j assume "j < length (currentDeck (fst R))"
    then have j: "j < length cs" using run by (simp add: Ldeck)
    then have "j \<in> set order" using so by simp
    with j run show "currentDeck (fst R) ! j =
        map (\<lambda>i. Some (withImage (outcome i) (cs ! i))) [0..<length cs] ! j"
      by (simp add: Ldeck)
  qed
  have Rframe: "coins (fst R) = coins s"
    "coinsEarnedThisSession (fst R) = coinsEarnedThisSession s"
    "filter isSetTimeout (effects (fst R)) = filter isSetTimeout (effects s)"
    unfolding R_def L_def
    using settleAll_frame [of "map (\<lambda>i. (i, outcome i)) order" "snd (launchAll cs 0 s2 [])"
        "fst (launchAll cs 0 s2 [])"] launchAll_frame [of cs 0 s2 "[]"] s2
    by simp_all
  show ?thesis
    unfolding gen using Rnil Rdeck Rframe
    by (simp add: generateStory_finally_def setLoading_def awardCoins_def saveGameData_def
        updateCoinDisplay_def Let_def del: toString.simps)
qed




section \<open>Shuffling\<close>

lemma random_index:
  assumes "0 \<le> r" and "r < 1"
  shows "nat \<lfloor>r * real (Suc n)\<rfloor> < Suc n"
proof -
  have "r * real (Suc n) < real (Suc n)"
    using assms by (simp add: mult_less_cancel_right1 del: of_nat_Suc)
  then have "\<lfloor>r * real (Suc n)\<rfloor> < int (Suc n)"
    by (simp add: floor_less_iff del: of_nat_Suc)
  then show ?thesis by linarith
qed

lemma shuffleLoop_mset:
  assumes "\<forall>k. 0 \<le> rnd k \<and> rnd k < 1"
  shows "i < length xs \<Longrightarrow> mset (fst (shuffleLoop rnd k i xs)) = mset xs"
proof (induction i arbitrary: k xs)
  case 0
  show ?case by simp
next
  case (Suc i)
  let ?j = "nat \<lfloor>rnd k * real (Suc (Suc i))\<rfloor>"
  let ?xs = "xs[Suc i := xs ! ?j, ?j := xs ! Suc i]"
  from assms have "?j < Suc (Suc i)" by (intro random_index) auto
  with Suc.prems have j: "?j < length xs" by simp
  have sw: "mset ?xs = mset xs"
    using mset_swap [OF j Suc.prems] .
  have "i < length ?xs" using Suc.prems by simp
  from Suc.IH [OF this] sw show ?case by (simp add: Let_def)
qed

lemma shuffle_mset:
  assumes "\<forall>k. 0 \<le> rnd k \<and> rnd k < 1"
  shows "mset (fst (shuffle rnd k xs)) = mset xs"
proof (cases xs)
  case Nil
  then show ?thesis by (simp add: shuffle_def)
next
  case (Cons a list)
  then have "length xs - 1 < length xs" by simp
  from shuffleLoop_mset [OF assms this] show ?thesis by (simp add: shuffle_def)
qed

lemma map_filter_Some: "List.map_filter (\<lambda>c. c) (map Some cs) = cs"
  by (induction cs) (simp_all add: List.map_filter_simps)

lemma length_filter_neq:
  "distinct xs \<Longrightarrow> x \<in> set xs \<Longrightarrow> Suc (length (filter (\<lambda>y. y \<noteq> x) xs)) = length xs"
proof (induction xs)
  case Nil
  then show ?case by simp
next
  case (Cons a xs)
  show ?case
  proof (cases "a = x")
    case True
    with Cons.prems have "filter (\<lambda>y. y \<noteq> x) xs = xs"
      by (auto intro: filter_True)
    with True show ?thesis by simp
  next
    case False
    with Cons show ?thesis by simp
  qed
qed

lemma generateMultipleChoice_options:
  assumes "\<forall>k. 0 \<le> rnd k \<and> rnd k < 1"
  shows "\<exists>ds. mset ds = mset (filter (\<lambda>f. f \<noteq> c)
                  (map fact (List.map_filter (\<lambda>c. c) (currentDeck s))))
           \<and> mset (fst (generateMultipleChoice rnd c s)) = mset (c # take 2 ds)"
proof -
  let ?d = "filter (\<lambda>f. f \<noteq> c) (map fact (List.map_filter (\<lambda>c. c) (currentDeck s)))"
  let ?ds = "fst (shuffle rnd (randomCalls s) ?d)"
  have 1: "mset ?ds = mset ?d" using shuffle_mset [OF assms] .
  have 2: "fst (generateMultipleChoice rnd c s) =
      fst (shuffle rnd (snd (shuffle rnd (randomCalls s) ?d)) (c # take 2 ?ds))"
    by (simp add: generateMultipleChoice_def Let_def case_prod_beta)
  have 3: "mset (fst (generateMultipleChoice rnd c s)) = mset (c # take 2 ?ds)"
    unfolding 2 using shuffle_mset [OF assms] .
  from 1 3 show ?thesis by blast
qed

section \<open>Invariant of a quiz session\<close>

lemma quizStep_invariant:
  assumes "coinsEarnedThisSession s = COINS_PER_CORRECT_ANSWER * int (score s)"
  shows "coinsEarnedThisSession (quizStep rnd e s) =
           COINS_PER_CORRECT_ANSWER * int (score (quizStep rnd e s))"
proof (cases e)
  case (ClickAnswer k)
  with assms show ?thesis
    by (simp add: clickAnswer_def handleAnswer_fields COINS_PER_CORRECT_ANSWER_def)
next
  case AnswerTimeout
  with assms show ?thesis
    by (simp add: nextQuestion_def displayQuestion_fields showSummary_def Let_def
        del: toString.simps)
next
  case AwardedTimeout
  with assms show ?thesis by (simp add: removeAwarded_def)
qed

lemma quizRun_invariant:
  "coinsEarnedThisSession s = COINS_PER_CORRECT_ANSWER * int (score s) \<Longrightarrow>
     coinsEarnedThisSession (quizRun rnd es s) =
       COINS_PER_CORRECT_ANSWER * int (score (quizRun rnd es s))"
  unfolding quizRun_def
  by (induction es arbitrary: s) (simp_all add: quizStep_invariant)

section \<open>Facts about the sample inputs\<close>

lemma sample_order: "mset [2, 1, 0] = mset [0..<length sampleDescriptors]"
  by (simp add: sampleDescriptors_def upt_rec)

lemma trim_samples:
  "trim '' Fact A '' = ''Fact A''"
  "trim [CHR 0xC2, CHR 0xA0, CHR 0x20, CHR 0x0A] = []"
  by (simp_all add: trim_def trimStart_def trimEnd_def leadingLength_def whiteSpaceChars_def)

lemma sample_ready: "\<not> isLoading samplePage" "trim (factsInput_value samplePage) \<noteq> []"
  by (simp_all add: samplePage_def trim_samples)

lemma empty_order: "mset [] = mset [0..<length (case Some [] of None \<Rightarrow> [] | Some (cs::Character list) \<Rightarrow> cs)]"
  by simp

lemma constant_draw: "\<forall>k::nat. (0::real) \<le> 1 / 2 \<and> (1::real) / 2 < 1"
  by simp

section \<open>Reward ledger persistence\<close>



section \<open>Validation failures\<close>

text \<open>
  Claim C6. Starting a quiz on a deck with fewer than 2 entries only shows the message
  that at least 2 characters are needed: no field of the state changes, in particular the
  quiz view stays as it was and \<open>currentQuestionIndex\<close>, \<open>score\<close> and
  \<open>coinsEarnedThisSession\<close> keep their values.
\<close>

theorem startQuiz_small_deck_rejected:
  assumes "length (currentDeck s) < 2"
  shows "startQuiz rnd s =
           s\<lparr>effects := effects s @ [Alert ''You need at least 2 characters to start a review.'']\<rparr>
         \<and> currentQuestionIndex (startQuiz rnd s) = currentQuestionIndex s
         \<and> score (startQuiz rnd s) = score s
         \<and> coinsEarnedThisSession (startQuiz rnd s) = coinsEarnedThisSession s
         \<and> mainContainer_hidden (startQuiz rnd s) = mainContainer_hidden s
         \<and> quizContainer_hidden (startQuiz rnd s) = quizContainer_hidden s
         \<and> quizAnswers (startQuiz rnd s) = quizAnswers s
         \<and> currentDeck (startQuiz rnd s) = currentDeck s"
  using assms by (simp add: startQuiz_def)

theorem startQuiz_small_deck_rejected_witness:
  "length (currentDeck (samplePage\<lparr>currentDeck := [Some (sampleCharacter ''A'')]\<rparr>)) < 2
   \<and> score (startQuiz (\<lambda>k. 0) (samplePage\<lparr>currentDeck := [Some (sampleCharacter ''A'')]\<rparr>)) = 0
   \<and> quizContainer_hidden (startQuiz (\<lambda>k. 0) (samplePage\<lparr>currentDeck := [Some (sampleCharacter ''A'')]\<rparr>))
   \<and> effects (startQuiz (\<lambda>k. 0) (samplePage\<lparr>currentDeck := [Some (sampleCharacter ''A'')]\<rparr>)) =
       [Alert ''You need at least 2 characters to start a review.'']"
proof -
  have h: "length (currentDeck (samplePage\<lparr>currentDeck := [Some (sampleCharacter ''A'')]\<rparr>)) < 2"
    by simp
  show ?thesis
    using h startQuiz_small_deck_rejected [OF h, of "\<lambda>k. 0"] by (simp add: samplePage_def)
qed

text \<open>
  Claim C7. A submission (the handler runs only while the page is not loading: the button
  that triggers it is disabled together with \<open>isLoading\<close>) whose facts are empty after
  trimming, whatever white space they are made of, returns at once: the only change is the
  validation message, so no request is made and the deck, the coin balance, its stored copy
  and the loading flag are unchanged.
\<close>

theorem empty_facts_rejected:
  assumes "\<not> isLoading s" and "trim (factsInput_value s) = []"
  shows "generateStoryAndImages response settlements s =
           Some (s\<lparr>effects := effects s @ [Alert ''Please enter some facts in The Study first!'']\<rparr>)
         \<and> (\<forall>s'. generateStoryAndImages response settlements s = Some s' \<longrightarrow>
               currentDeck s' = currentDeck s \<and> coins s' = coins s
               \<and> memoryPalaceCoins s' = memoryPalaceCoins s \<and> isLoading s' = isLoading s
               \<and> filter isRequest (effects s') = filter isRequest (effects s))"
  using assms by (simp add: generateStoryAndImages_def)

theorem empty_facts_rejected_witness:
  "\<not> isLoading (samplePage\<lparr>factsInput_value := [CHR 0xC2, CHR 0xA0, CHR 0x20, CHR 0x0A]\<rparr>)
   \<and> trim (factsInput_value
        (samplePage\<lparr>factsInput_value := [CHR 0xC2, CHR 0xA0, CHR 0x20, CHR 0x0A]\<rparr>)) = []
   \<and> generateStoryAndImages (NarrativeOk ''Once'' (Some sampleDescriptors)) []
        (samplePage\<lparr>factsInput_value := [CHR 0xC2, CHR 0xA0, CHR 0x20, CHR 0x0A]\<rparr>) =
       Some (samplePage\<lparr>factsInput_value := [CHR 0xC2, CHR 0xA0, CHR 0x20, CHR 0x0A],
                        effects := [Alert ''Please enter some facts in The Study first!'']\<rparr>)"
proof -
  have h1: "\<not> isLoading (samplePage\<lparr>factsInput_value := [CHR 0xC2, CHR 0xA0, CHR 0x20, CHR 0x0A]\<rparr>)"
    by (simp add: samplePage_def)
  have h2: "trim (factsInput_value
      (samplePage\<lparr>factsInput_value := [CHR 0xC2, CHR 0xA0, CHR 0x20, CHR 0x0A]\<rparr>)) = []"
    by (simp add: trim_samples)
  show ?thesis
    using h1 h2 empty_facts_rejected [OF h1 h2, of "NarrativeOk ''Once'' (Some sampleDescriptors)" "[]"]
    by (simp add: samplePage_def)
qed

section \<open>Failure of the narrative request\<close>



section \<open>Answer selection\<close>

text \<open>
  Claim C3. Let a question be displayed for the current descriptor \<open>c\<close> and let any of its
  answer buttons be clicked. If the button's option equals \<open>fact c\<close>, the score goes up
  by exactly 1 and one award of \<open>COINS_PER_CORRECT_ANSWER = 5\<close> is made: the balance and
  the session figure grow by 5, the balance is stored, and one award timer is set before the
  timer of the next question. Otherwise score, balance, session figure and stored balance
  are unchanged and only the next-question timer is set. After the click every button is
  disabled, so no second selection reaches the handler.
\<close>

theorem answer_selection_reward:
  assumes "currentQuestionIndex s < length (currentDeck s)"
    and "currentDeck s ! currentQuestionIndex s = Some c"
    and "k < length (quizAnswers (displayQuestion rnd s))"
  shows "let q = displayQuestion rnd s; s' = clickAnswer k q in
           (if b_text (quizAnswers q ! k) = fact c then
              score s' = Suc (score q)
              \<and> coins s' = plus_number (coins q) 5
              \<and> coinsEarnedThisSession s' = coinsEarnedThisSession q + 5
              \<and> memoryPalaceCoins s' = Some (toString (plus_number (coins q) 5))
              \<and> effects s' = effects q @ [SetTimeout RemoveAwarded 600, SetTimeout NextQuestion 1500]
            else
              score s' = score q \<and> coins s' = coins q
              \<and> coinsEarnedThisSession s' = coinsEarnedThisSession q
              \<and> memoryPalaceCoins s' = memoryPalaceCoins q
              \<and> effects s' = effects q @ [SetTimeout NextQuestion 1500])
           \<and> (\<forall>j. clickAnswer j s' = s')"
proof -
  let ?q = "displayQuestion rnd s"
  let ?b = "quizAnswers ?q ! k"
  obtain options where qa: "quizAnswers ?q =
      map (\<lambda>option. \<lparr>b_text = option, b_disabled = False,
                      b_classes = [''answer-button''], b_correct = fact c\<rparr>) options"
    using displayQuestion_current(2) [OF assms(1,2)] by blast
  from assms(3) have b: "\<not> b_disabled ?b" "b_correct ?b = fact c"
    by (simp_all add: qa)
  have all: "\<And>x. x \<in> set (quizAnswers ?q) \<Longrightarrow> ''answer-button'' \<in> set (b_classes x)"
    by (auto simp: qa)
  have click: "clickAnswer k ?q = handleAnswer (b_text ?b) (fact c) ?q"
    using assms(3) b by (simp add: clickAnswer_def)
  have dis: "\<And>j. j < length (quizAnswers ?q) \<Longrightarrow>
      b_disabled (quizAnswers (handleAnswer (b_text ?b) (fact c) ?q) ! j)"
    using all by (simp add: handleAnswer_fields(6) markButton_def Let_def)
  have again: "\<And>j. clickAnswer j (clickAnswer k ?q) = clickAnswer k ?q"
    unfolding click using dis
    by (auto simp: clickAnswer_def handleAnswer_fields(6))
  show ?thesis
    unfolding Let_def using again
    by (simp add: click handleAnswer_fields COINS_PER_CORRECT_ANSWER_def del: toString.simps)
qed

theorem answer_selection_reward_witness:
  "currentQuestionIndex sampleQuizPage < length (currentDeck sampleQuizPage)
   \<and> currentDeck sampleQuizPage ! currentQuestionIndex sampleQuizPage = Some (sampleCharacter ''A'')
   \<and> 2 < length (quizAnswers (displayQuestion (\<lambda>k. 0) sampleQuizPage))
   \<and> b_text (quizAnswers (displayQuestion (\<lambda>k. 0) sampleQuizPage) ! 2) = ''A''
   \<and> score (clickAnswer 2 (displayQuestion (\<lambda>k. 0) sampleQuizPage)) = 1
   \<and> coins (clickAnswer 2 (displayQuestion (\<lambda>k. 0) sampleQuizPage)) = Num 5"
proof -
  have q: "quizAnswers (displayQuestion (\<lambda>k. 0) sampleQuizPage) =
      map (\<lambda>option. \<lparr>b_text = option, b_disabled = False, b_classes = [''answer-button''],
                      b_correct = ''A''\<rparr>) [''C'', ''B'', ''A'']"
    by (simp add: displayQuestion_def generateMultipleChoice_def shuffle_def sampleQuizPage_def
        samplePage_def sampleCharacter_def List.map_filter_simps Let_def del: toString.simps)
  have h1: "currentQuestionIndex sampleQuizPage < length (currentDeck sampleQuizPage)"
    by (simp add: sampleQuizPage_def samplePage_def)
  have h2: "currentDeck sampleQuizPage ! currentQuestionIndex sampleQuizPage
      = Some (sampleCharacter ''A'')"
    by (simp add: sampleQuizPage_def samplePage_def)
  have h3: "2 < length (quizAnswers (displayQuestion (\<lambda>k. 0) sampleQuizPage))"
    by (simp add: q)
  have c0: "coins (displayQuestion (\<lambda>k. 0) sampleQuizPage) = Num 0"
    "score (displayQuestion (\<lambda>k. 0) sampleQuizPage) = 0"
    by (simp_all add: displayQuestion_fields sampleQuizPage_def samplePage_def)
  show ?thesis
    using h1 h2 h3 answer_selection_reward [OF h1 h2 h3]
    by (simp add: q c0 Let_def sampleCharacter_def numberOf_def safeInteger_def
        del: toString.simps)
qed

section \<open>Deck assembly\<close>

text \<open>
  Claim C2. Let the narrative answer hold the descriptors \<open>cs\<close> and let the illustration
  requests settle in any order (\<open>order\<close> is any arrangement of the indices
  \<open>0, ..., length cs - 1\<close>, the reverse of submission included), request \<open>i\<close> with the
  result \<open>outcome i\<close>. Then the handler completes and the deck has one entry per
  descriptor, the entry at index \<open>i\<close> being the \<open>i\<close>-th descriptor: same fact, name and
  image prompt, with the image address of its own request when that succeeded.
\<close>

theorem deck_order_preserved:
  assumes "\<not> isLoading s" and "trim (factsInput_value s) \<noteq> []"
    and "mset order = mset [0..<length cs]"
  shows "\<exists>s'. generateStoryAndImages (NarrativeOk story (Some cs))
                 (map (\<lambda>i. (i, outcome i)) order) s = Some s'
           \<and> length (currentDeck s') = length cs
           \<and> (\<forall>i < length cs. \<exists>c. currentDeck s' ! i = Some c
                 \<and> fact c = fact (cs ! i) \<and> characterName c = characterName (cs ! i)
                 \<and> imagePrompt c = imagePrompt (cs ! i)
                 \<and> imageUrl c = (case outcome i of
                      ImageOk b \<Rightarrow> Some (''data:image/jpeg;base64,'' @ b)
                    | ImageFailed \<Rightarrow> imageUrl (cs ! i)))"
proof -
  from story_success [OF assms, of story outcome] obtain s' where
    s': "generateStoryAndImages (NarrativeOk story (Some cs))
           (map (\<lambda>i. (i, outcome i)) order) s = Some s'"
    and deck: "currentDeck s' = map (\<lambda>i. Some (withImage (outcome i) (cs ! i))) [0..<length cs]"
    by blast
  have "\<forall>i < length cs. \<exists>c. currentDeck s' ! i = Some c
                 \<and> fact c = fact (cs ! i) \<and> characterName c = characterName (cs ! i)
                 \<and> imagePrompt c = imagePrompt (cs ! i)
                 \<and> imageUrl c = (case outcome i of
                      ImageOk b \<Rightarrow> Some (''data:image/jpeg;base64,'' @ b)
                    | ImageFailed \<Rightarrow> imageUrl (cs ! i))"
    by (simp add: deck withImage_def split: image_result.splits)
  with s' deck show ?thesis by simp
qed

theorem deck_order_preserved_witness:
  "\<not> isLoading samplePage \<and> trim (factsInput_value samplePage) \<noteq> []
   \<and> mset [2, 1, 0] = mset [0..<length sampleDescriptors]
   \<and> (\<exists>s'. generateStoryAndImages (NarrativeOk ''Once'' (Some sampleDescriptors))
              [(2, sampleOutcome 2), (1, sampleOutcome 1), (0, sampleOutcome 0)] samplePage = Some s'
         \<and> length (currentDeck s') = 3
         \<and> (\<exists>c. currentDeck s' ! 0 = Some c \<and> fact c = ''A''))"
  using deck_order_preserved [OF sample_ready sample_order, of "''Once''" sampleOutcome]
    sample_ready sample_order
  by (auto simp: sampleDescriptors_def sampleCharacter_def)



section \<open>Story award\<close>

text \<open>
  Claim C4. In every run in which the narrative request succeeds and every illustration
  request settles, whatever the number of descriptors (none, or no \<open>characters\<close> key at
  all, included), exactly one award of \<open>COINS_PER_STORY = 10\<close> is made: balance and session
  figure grow by 10, the new balance is stored, and the one timer set during the run is
  the timer of that award.
\<close>

theorem story_award_once:
  assumes "\<not> isLoading s" and "trim (factsInput_value s) \<noteq> []"
    and "mset order = mset [0..<length (case characters of None \<Rightarrow> [] | Some cs \<Rightarrow> cs)]"
  shows "\<exists>s'. generateStoryAndImages (NarrativeOk story characters)
                 (map (\<lambda>i. (i, outcome i)) order) s = Some s'
           \<and> COINS_PER_STORY = 10
           \<and> coins s' = plus_number (coins s) 10
           \<and> coinsEarnedThisSession s' = coinsEarnedThisSession s + 10
           \<and> memoryPalaceCoins s' = Some (toString (plus_number (coins s) 10))
           \<and> filter isSetTimeout (effects s') =
               filter isSetTimeout (effects s) @ [SetTimeout RemoveAwarded 600]"
proof (cases characters)
  case None
  with assms(1,2) show ?thesis
    by (simp add: generateStoryAndImages_def generateStory_finally_def setLoading_def
        awardCoins_def saveGameData_def updateCoinDisplay_def COINS_PER_STORY_def Let_def
        del: toString.simps)
next
  case (Some cs)
  with assms(3) have "mset order = mset [0..<length cs]" by simp
  from story_success [OF assms(1,2) this, of story outcome] Some show ?thesis
    by (auto simp: COINS_PER_STORY_def simp del: toString.simps)
qed

theorem story_award_once_witness:
  "\<not> isLoading samplePage \<and> trim (factsInput_value samplePage) \<noteq> []
   \<and> mset [] = mset [0..<length (case Some [] of None \<Rightarrow> [] | Some (cs::Character list) \<Rightarrow> cs)]
   \<and> (\<exists>s'. generateStoryAndImages (NarrativeOk ''Once'' (Some [])) [] samplePage = Some s'
         \<and> coins s' = Num 10 \<and> coinsEarnedThisSession s' = 10
         \<and> memoryPalaceCoins s' = Some ''10''
         \<and> filter isSetTimeout (effects s') = [SetTimeout RemoveAwarded 600])"
proof -
  have d: "decimal 10 = ''10''" by (simp add: decimal.simps digitChar_def)
  show ?thesis
    using story_award_once [OF sample_ready empty_order, of "''Once''" "\<lambda>i. ImageFailed"]
      sample_ready
    by (auto simp: samplePage_def numberOf_def safeInteger_def d)
qed

section \<open>Multiple choice\<close>

text \<open>
  Claim C1. The function is documented to generate 3 options, 1 correct and 2 distractors,
  and the quiz admits every deck of at least 2 entries. On a deck of 2 descriptors there is
  a single distractor: for the deck with the facts \<open>A\<close> and \<open>B\<close>, the current fact \<open>A\<close> and
  every draw of \<open>Math.random()\<close> equal to 0, the options returned are \<open>B\<close> and \<open>A\<close>, two
  and not three.
\<close>

theorem multiple_choice_deck_of_two:
  "length (currentDeck
     (samplePage\<lparr>currentDeck := [Some (sampleCharacter ''A''), Some (sampleCharacter ''B'')]\<rparr>)) \<ge> 2
   \<and> fst (generateMultipleChoice (\<lambda>k. 0) (fact (sampleCharacter ''A''))
       (samplePage\<lparr>currentDeck := [Some (sampleCharacter ''A''), Some (sampleCharacter ''B'')]\<rparr>))
     = [''B'', ''A'']"
  by (simp add: generateMultipleChoice_def shuffle_def sampleCharacter_def samplePage_def
      List.map_filter_simps Let_def)

text \<open>
  With at least 3 descriptors of pairwise distinct facts the function does what its
  documentation says, for every outcome of the draws (each in \<open>[0, 1)\<close>): the options are
  exactly 3, pairwise distinct, all facts of the deck, and one of them is the current fact.
\<close>

theorem multiple_choice_three_options:
  assumes "\<forall>k. 0 \<le> rnd k \<and> rnd k < 1"
    and "currentDeck s = map Some cs" and "3 \<le> length cs" and "distinct (map fact cs)"
    and "i < length cs"
  shows "length (fst (generateMultipleChoice rnd (fact (cs ! i)) s)) = 3
       \<and> distinct (fst (generateMultipleChoice rnd (fact (cs ! i)) s))
       \<and> fact (cs ! i) \<in> set (fst (generateMultipleChoice rnd (fact (cs ! i)) s))
       \<and> set (fst (generateMultipleChoice rnd (fact (cs ! i)) s)) \<subseteq> fact ` set cs"
proof -
  let ?c = "fact (cs ! i)"
  let ?o = "fst (generateMultipleChoice rnd ?c s)"
  obtain ds where ds: "mset ds = mset (filter (\<lambda>f. f \<noteq> ?c) (map fact cs))"
    and o: "mset ?o = mset (?c # take 2 ds)"
    using generateMultipleChoice_options [OF assms(1), of ?c s]
    by (auto simp: assms(2) map_filter_Some)
  have cin: "?c \<in> set (map fact cs)" using assms(5) by simp
  have "Suc (length (filter (\<lambda>f. f \<noteq> ?c) (map fact cs))) = length (map fact cs)"
    using length_filter_neq [OF assms(4) cin] .
  with assms(3) have "2 \<le> length (filter (\<lambda>f. f \<noteq> ?c) (map fact cs))" by simp
  with mset_eq_length [OF ds] have len: "2 \<le> length ds" by simp
  have dd: "distinct ds"
    using mset_eq_imp_distinct_iff [OF ds] assms(4) by simp
  have sd: "set ds = {f \<in> fact ` set cs. f \<noteq> ?c}"
    using mset_eq_setD [OF ds] by auto
  have t: "distinct (?c # take 2 ds)" "length (?c # take 2 ds) = 3"
    "set (?c # take 2 ds) \<subseteq> fact ` set cs"
    using dd sd len cin by (auto dest: in_set_takeD)
  show ?thesis
    using mset_eq_length [OF o] mset_eq_imp_distinct_iff [OF o] mset_eq_setD [OF o] t
    by auto
qed

theorem multiple_choice_three_options_witness:
  "(\<forall>k::nat. (0::real) \<le> 1 / 2 \<and> (1::real) / 2 < 1)
   \<and> currentDeck sampleQuizPage = map Some sampleDescriptors
   \<and> 3 \<le> length sampleDescriptors \<and> distinct (map fact sampleDescriptors)
   \<and> 0 < length sampleDescriptors
   \<and> length (fst (generateMultipleChoice (\<lambda>k. 1 / 2) (fact (sampleDescriptors ! 0)) sampleQuizPage)) = 3
   \<and> ''A'' \<in> set (fst (generateMultipleChoice (\<lambda>k. 1 / 2) (fact (sampleDescriptors ! 0)) sampleQuizPage))"
proof -
  have h2: "currentDeck sampleQuizPage = map Some sampleDescriptors"
    by (simp add: sampleQuizPage_def sampleDescriptors_def)
  have h3: "3 \<le> length sampleDescriptors" by (simp add: sampleDescriptors_def)
  have h4: "distinct (map fact sampleDescriptors)"
    by (simp add: sampleDescriptors_def sampleCharacter_def)
  have h5: "0 < length sampleDescriptors" by (simp add: sampleDescriptors_def)
  have f: "fact (sampleDescriptors ! 0) = ''A''"
    by (simp add: sampleDescriptors_def sampleCharacter_def)
  show ?thesis
    using multiple_choice_three_options [OF constant_draw h2 h3 h4 h5] h2 h3 h4 h5
    by (simp add: f)
qed

section \<open>Session reward\<close>

text \<open>
  Claim C10. After \<open>startQuiz\<close> on a deck of at least 2 entries and any sequence of
  answer clicks and timer callbacks, \<open>coinsEarnedThisSession\<close> equals
  \<open>COINS_PER_CORRECT_ANSWER = 5\<close> times \<open>score\<close>; hence the figure \<open>showSummary\<close> writes
  into the summary is 5 times the final score.
\<close>

theorem session_reward_is_five_per_point:
  assumes "2 \<le> length (currentDeck s)"
  shows "coinsEarnedThisSession (quizRun rnd es (startQuiz rnd s)) =
           COINS_PER_CORRECT_ANSWER * int (score (quizRun rnd es (startQuiz rnd s)))
       \<and> COINS_PER_CORRECT_ANSWER = 5
       \<and> summaryCoins (showSummary (quizRun rnd es (startQuiz rnd s))) =
           ''You earned '' @ toString (Num (5 * int (score (quizRun rnd es (startQuiz rnd s))))) @
           '' '' @ coinSign @ '' for this review.''"
proof -
  have "coinsEarnedThisSession (startQuiz rnd s) =
      COINS_PER_CORRECT_ANSWER * int (score (startQuiz rnd s))"
    using assms by (simp add: startQuiz_def displayQuestion_fields)
  from quizRun_invariant [OF this, of rnd es] show ?thesis
    by (simp add: showSummary_def COINS_PER_CORRECT_ANSWER_def del: toString.simps)
qed

theorem session_reward_is_five_per_point_witness:
  "2 \<le> length (currentDeck sampleQuizPage)
   \<and> coinsEarnedThisSession
       (quizRun (\<lambda>k. 0) [ClickAnswer 2, AnswerTimeout] (startQuiz (\<lambda>k. 0) sampleQuizPage)) =
     5 * int (score
       (quizRun (\<lambda>k. 0) [ClickAnswer 2, AnswerTimeout] (startQuiz (\<lambda>k. 0) sampleQuizPage)))
   \<and> score
       (quizRun (\<lambda>k. 0) [ClickAnswer 2, AnswerTimeout] (startQuiz (\<lambda>k. 0) sampleQuizPage)) = 1"
proof -
  have h: "2 \<le> length (currentDeck sampleQuizPage)"
    by (simp add: sampleQuizPage_def)
  show ?thesis
    using session_reward_is_five_per_point [OF h, of "\<lambda>k. 0" "[ClickAnswer 2, AnswerTimeout]"] h
    by (simp add: COINS_PER_CORRECT_ANSWER_def quizRun_def startQuiz_def displayQuestion_def
        generateMultipleChoice_def shuffle_def clickAnswer_def handleAnswer_def markButton_def
        classListAdd_def awardCoins_def saveGameData_def updateCoinDisplay_def nextQuestion_def
        sampleQuizPage_def samplePage_def sampleCharacter_def List.map_filter_simps Let_def
        del: toString.simps)
qed

end
